theory Spec2Isabelle
  imports Complex_Main "HOL-Library.Sublist"
begin

section \<open>Values shared by both variants of the service\<close>

text \<open>
  A Python \<open>float\<close> is an IEEE double: a finite number, one of the two infinities, or NaN.
  Nothing in the service computes with the features, so the finite values are kept as
  rationals.
\<close>

datatype pyfloat = Finite rat | PosInf | NegInf | NaN

fun isfinite :: "pyfloat \<Rightarrow> bool" where
  "isfinite (Finite _) = True"
| "isfinite _ = False"

text \<open>
  An exception caught by \<open>except Exception as e\<close>: its class name and the text \<open>str(e)\<close>.
\<close>

datatype py_exn = PyExn (exn_class: string) (exn_text: string)

text \<open>
  The first element of what \<open>model.predict\<close> returns is duck-typed. The handlers only ask
  three things of it: \<open>isinstance(y, str)\<close>, \<open>int(y)\<close> and \<open>str(y)\<close>. \<open>RStr\<close> is a Python
  string, \<open>RInt\<close> an integer class index, and \<open>RObj r s\<close> any other object, given by what
  \<open>int\<close> does on it (it raises, or returns an integer) and by its \<open>str\<close> form.
\<close>

datatype raw_label = RStr string | RInt int | RObj "py_exn + int" string

definition digit_char :: "nat \<Rightarrow> char" where
  "digit_char n = ''0123456789'' ! (n mod 10)"

function str_nat :: "nat \<Rightarrow> string" where
  "str_nat n = (if n < 10 then [digit_char n] else str_nat (n div 10) @ [digit_char (n mod 10)])"
  by pat_completeness auto
termination
  by (relation "measure id") auto

declare str_nat.simps [simp del]

definition str_int :: "int \<Rightarrow> string" where
  "str_int i = (if i < 0 then CHR ''-'' # str_nat (nat (- i)) else str_nat (nat i))"

fun py_isinstance_str :: "raw_label \<Rightarrow> bool" where
  "py_isinstance_str (RStr _) = True"
| "py_isinstance_str _ = False"

fun py_int :: "raw_label \<Rightarrow> py_exn + int" where
  "py_int (RInt i) = Inr i"
| "py_int (RObj r _) = r"
| "py_int (RStr s) = Inl (PyExn ''ValueError'' (''invalid literal for int() with base 10: '' @ s))"

fun py_str :: "raw_label \<Rightarrow> string" where
  "py_str (RStr s) = s"
| "py_str (RInt i) = str_int i"
| "py_str (RObj _ s) = s"

text \<open>
  The loaded model is opaque: \<open>model.predict(X)\<close> either raises or returns a sequence of
  raw labels, and it is a function of its argument only.
\<close>

type_synonym model = "pyfloat list list \<Rightarrow> py_exn + raw_label list"

definition index0 :: "raw_label list \<Rightarrow> py_exn + raw_label" where
  "index0 ys = (case ys of [] \<Rightarrow> Inl (PyExn ''IndexError'' ''list index out of range'')
                | y # _ \<Rightarrow> Inr y)"

text \<open>JSON values, for request bodies, response bodies and structured log lines.\<close>

datatype jval =
    JNull
  | JBool bool
  | JNum pyfloat
  | JStr string
  | JRaw raw_label
  | JList "jval list"
  | JObj "(string \<times> jval) list"

text \<open>
  What a route handler does: it returns a dict (sent with status 200), returns a bare
  \<open>Response(status_code=c)\<close>, returns a \<open>JSONResponse\<close>, or raises \<open>HTTPException\<close>, which
  the framework sends as the given status with the body \<open>{"detail": detail}\<close>.
\<close>

datatype outcome =
    Return "(string \<times> jval) list"
  | ReturnResponse nat
  | ReturnJSON nat "(string \<times> jval) list"
  | RaiseHTTP nat string

text \<open>
  A response, as the caller sees it: the status and the JSON body. Headers are left out; the
  timing middleware of deploy.py only adds the header \<open>X-Process-Time-ms\<close>.
\<close>

record response =
  status_code :: nat
  body :: jval

fun render :: "outcome \<Rightarrow> response" where
  "render (Return d) = \<lparr>status_code = 200, body = JObj d\<rparr>"
| "render (ReturnResponse c) = \<lparr>status_code = c, body = JNull\<rparr>"
| "render (ReturnJSON c d) = \<lparr>status_code = c, body = JObj d\<rparr>"
| "render (RaiseHTTP c detail) = \<lparr>status_code = c, body = JObj [(''detail'', JStr detail)]\<rparr>"

text \<open>The request schema: \<open>IrisInput\<close> in app.py, \<open>Input\<close> in deploy.py, four floats.\<close>

record IrisInput =
  sepal_length :: pyfloat
  sepal_width :: pyfloat
  petal_length :: pyfloat
  petal_width :: pyfloat

definition feature_rows :: "IrisInput \<Rightarrow> pyfloat list list" where
  "feature_rows inp =
     [[sepal_length inp, sepal_width inp, petal_length inp, petal_width inp]]"

text \<open>\<open>d.get(k, default)\<close> on a dict written as an association list.\<close>

definition dict_get :: "('k \<times> 'v) list \<Rightarrow> 'k \<Rightarrow> 'v \<Rightarrow> 'v" where
  "dict_get d k dflt = (case map_of d k of None \<Rightarrow> dflt | Some v \<Rightarrow> v)"

section \<open>app.py: the plain variant\<close>

definition SERVICE_ACCOUNT_KEY :: string where
  "SERVICE_ACCOUNT_KEY = ''github-dvc-key.json''"

text \<open>
  What the loader sees of the machine: the bytes of \<open>models/model.pkl\<close> when the file
  exists, the exception \<open>mkdir\<close> raises on \<open>models/\<close> if it raises one, whether the
  credential file exists, what creating the storage client and downloading the blob gives
  (an exception or the bytes), and what has been printed so far. (The printed lines are
  kept without their leading pictograph.)
\<close>

record env =
  local_model :: "string option"
  mkdir_error :: "py_exn option"
  key_exists :: bool
  gcs_blob :: "py_exn + string"
  stdout :: "string list"

definition print :: "string \<Rightarrow> env \<Rightarrow> env" where
  "print s e = e\<lparr>stdout := stdout e @ [s]\<rparr>"

definition download_model_from_gcs :: "env \<Rightarrow> (py_exn + unit) \<times> env" where
  "download_model_from_gcs e =
     (case mkdir_error e of
        Some x \<Rightarrow> (Inl x, e)
      | None \<Rightarrow>
          (if key_exists e then
             (case gcs_blob e of
                Inl x \<Rightarrow> (Inl x, e)
              | Inr bytes \<Rightarrow>
                  (Inr (), print ''Model downloaded from GCS -> models/model.pkl''
                             (e\<lparr>local_model := Some bytes\<rparr>)))
           else
             (Inl (PyExn ''FileNotFoundError''
                    (''Service account JSON '' @ [CHR 0x27] @ SERVICE_ACCOUNT_KEY @ [CHR 0x27]
                      @ '' not found in current dir.'')), e)))"

text \<open>\<open>joblib.load\<close> on a path: the file may be missing, or its bytes may not unpickle.\<close>

definition joblib_load_path :: "(string \<Rightarrow> py_exn + model) \<Rightarrow> env \<Rightarrow> py_exn + model" where
  "joblib_load_path unpickle e =
     (case local_model e of
        None \<Rightarrow> Inl (PyExn ''FileNotFoundError''
                      (''[Errno 2] No such file or directory: '' @ [CHR 0x27]
                        @ ''models/model.pkl'' @ [CHR 0x27]))
      | Some bytes \<Rightarrow> unpickle bytes)"

definition load_model :: "(string \<Rightarrow> py_exn + model) \<Rightarrow> env \<Rightarrow> (py_exn + model) \<times> env" where
  "load_model unpickle e =
     (let (r, e1) =
            (if local_model e = None
             then download_model_from_gcs
                    (print ''model.pkl not found locally. Downloading from GCS...'' e)
             else (Inr (), e))
      in case r of
           Inl x \<Rightarrow> (Inl x, e1)
         | Inr _ \<Rightarrow>
             (case joblib_load_path unpickle e1 of
                Inl x \<Rightarrow> (Inl x, e1)
              | Inr mdl \<Rightarrow> (Inr mdl, print ''Model loaded into memory.'' e1)))"

text \<open>
  The process state of app.py: the global \<open>model\<close>. \<open>app_calls\<close> is a history variable:
  the arguments of every \<open>model.predict\<close> call made so far.
\<close>

record app_state =
  app_model :: "model option"
  app_calls :: "pyfloat list list list"

definition app_init :: app_state where
  "app_init = \<lparr>app_model = None, app_calls = []\<rparr>"


definition root :: "app_state \<Rightarrow> outcome" where
  "root st = Return [(''message'', JStr ''Iris Species Prediction API is running.'')]"

definition label_map :: "(int \<times> string) list" where
  "label_map = [(0, ''setosa''), (1, ''versicolor''), (2, ''virginica'')]"

definition app_species :: "raw_label \<Rightarrow> py_exn + string" where
  "app_species y_pred =
     (if py_isinstance_str y_pred then Inr (py_str y_pred)
      else (case py_int y_pred of
              Inl x \<Rightarrow> Inl x
            | Inr i \<Rightarrow> Inr (dict_get label_map i ''unknown'')))"

text \<open>The body of the \<open>try\<close> block of \<open>predict\<close>: what it returns, or what it raises.\<close>

definition app_try :: "model \<Rightarrow> pyfloat list list \<Rightarrow> py_exn + (string \<times> jval) list" where
  "app_try m X =
     (case m X of
        Inl x \<Rightarrow> Inl x
      | Inr ys \<Rightarrow>
          (case index0 ys of
             Inl x \<Rightarrow> Inl x
           | Inr y_pred \<Rightarrow>
               (case app_species y_pred of
                  Inl x \<Rightarrow> Inl x
                | Inr species \<Rightarrow>
                    Inr [(''status'', JStr ''success''),
                         (''predicted_label'', JRaw y_pred),
                         (''species'', JStr species)])))"

definition app_predict :: "app_state \<Rightarrow> IrisInput \<Rightarrow> outcome \<times> app_state" where
  "app_predict st features =
     (case app_model st of
        None \<Rightarrow> (RaiseHTTP 503 ''Model not loaded. Try again later.'', st)
      | Some m \<Rightarrow>
          (let X = feature_rows features;
               st1 = st\<lparr>app_calls := app_calls st @ [X]\<rparr>
           in case app_try m X of
                Inr d \<Rightarrow> (Return d, st1)
              | Inl x \<Rightarrow> (RaiseHTTP 500 (''Prediction failed: '' @ exn_text x), st1)))"

section \<open>deploy.py: the variant with telemetry\<close>

text \<open>
  One line handed to the logger: \<open>logger.info\<close> or \<open>logger.exception\<close>, with the message as
  a JSON value (a plain message is a \<open>JStr\<close>; a \<open>json.dumps\<close> of a dict is kept as the dict).
\<close>

datatype log_line = Info jval | Exception jval

text \<open>
  The process state of deploy.py: the global \<open>model\<close>, the two flags of \<open>app_state\<close>, and
  two history variables: the arguments of every \<open>model.predict\<close> call, and the log.
\<close>

record deploy_state =
  dep_model :: "model option"
  is_ready :: bool
  is_alive :: bool
  dep_calls :: "pyfloat list list list"
  dep_log :: "log_line list"

definition deploy_init :: deploy_state where
  "deploy_init =
     \<lparr>dep_model = None, is_ready = False, is_alive = True, dep_calls = [], dep_log = []\<rparr>"

definition logger :: "log_line \<Rightarrow> deploy_state \<Rightarrow> deploy_state" where
  "logger l st = st\<lparr>dep_log := dep_log st @ [l]\<rparr>"

definition SPECIES_MAP :: "(int \<times> string) list" where
  "SPECIES_MAP = [(0, ''setosa''), (1, ''versicolor''), (2, ''virginica'')]"

definition startup_event ::
  "(string \<Rightarrow> py_exn + model) \<Rightarrow> env \<Rightarrow> deploy_state \<Rightarrow> deploy_state" where
  "startup_event unpickle e st =
     (let st1 = logger (Info (JStr ''Loading model from models/model.pkl ...'')) st
      in case joblib_load_path unpickle e of
           Inr mdl \<Rightarrow>
             logger (Info (JStr ''Model loaded.''))
               (st1\<lparr>dep_model := Some mdl, is_ready := True\<rparr>)
         | Inl x \<Rightarrow>
             (logger (Exception (JStr (''Failed to load model: '' @ exn_text x))) st1)
               \<lparr>is_ready := False\<rparr>)"

definition live_check :: "deploy_state \<Rightarrow> outcome" where
  "live_check st =
     (if is_alive st then Return [(''status'', JStr ''alive'')] else ReturnResponse 500)"

definition ready_check :: "deploy_state \<Rightarrow> outcome" where
  "ready_check st =
     (if is_ready st then Return [(''status'', JStr ''ready'')] else ReturnResponse 503)"

text \<open>
  The handler registered for \<open>Exception\<close>. The trace id of the current span and the request
  URL are given; \<open>exc\<close> is the exception that escaped.
\<close>

definition exception_handler ::
  "string \<Rightarrow> string \<Rightarrow> py_exn \<Rightarrow> deploy_state \<Rightarrow> outcome \<times> deploy_state" where
  "exception_handler trace_id url exc st =
     (ReturnJSON 500 [(''detail'', JStr ''Internal Server Error''), (''trace_id'', JStr trace_id)],
      logger (Exception (JObj [(''event'', JStr ''unhandled_exception''),
                               (''trace_id'', JStr trace_id),
                               (''path'', JStr url),
                               (''error'', JStr (exn_text exc))])) st)"

definition deploy_species :: "raw_label \<Rightarrow> py_exn + string" where
  "deploy_species raw_pred =
     (if py_isinstance_str raw_pred then Inr (py_str raw_pred)
      else (case py_int raw_pred of
              Inl x \<Rightarrow> Inl x
            | Inr i \<Rightarrow> Inr (dict_get SPECIES_MAP i (py_str raw_pred))))"

text \<open>
  The body of the \<open>try\<close> block of \<open>predict\<close>, up to the payload. \<open>latency\<close> is the value of
  \<open>round((time.time() - start_time) * 1000, 2)\<close>, read from the clock.
\<close>

definition deploy_try ::
  "model option \<Rightarrow> string \<Rightarrow> pyfloat \<Rightarrow> IrisInput \<Rightarrow> py_exn + (string \<times> jval) list" where
  "deploy_try mo trace_id latency inp =
     (case mo of
        None \<Rightarrow> Inl (PyExn ''RuntimeError'' ''Model not loaded'')
      | Some m \<Rightarrow>
          (case m (feature_rows inp) of
             Inl x \<Rightarrow> Inl x
           | Inr ys \<Rightarrow>
               (case index0 ys of
                  Inl x \<Rightarrow> Inl x
                | Inr raw_pred \<Rightarrow>
                    (case deploy_species raw_pred of
                       Inl x \<Rightarrow> Inl x
                     | Inr species \<Rightarrow>
                         Inr [(''status'', JStr ''success''),
                              (''predicted_label'', JStr species),
                              (''species'', JStr species),
                              (''latency_ms'', JNum latency),
                              (''trace_id'', JStr trace_id)]))))"

definition deploy_predict ::
  "deploy_state \<Rightarrow> string \<Rightarrow> pyfloat \<Rightarrow> IrisInput \<Rightarrow> outcome \<times> deploy_state" where
  "deploy_predict st trace_id latency inp =
     (let features = feature_rows inp;
          st1 = (case dep_model st of
                   None \<Rightarrow> st
                 | Some _ \<Rightarrow> st\<lparr>dep_calls := dep_calls st @ [features]\<rparr>)
      in case deploy_try (dep_model st) trace_id latency inp of
           Inr payload \<Rightarrow>
             (Return payload,
              logger (Info (JObj [(''event'', JStr ''prediction''),
                                  (''trace_id'', JStr trace_id),
                                  (''input'', JList (map (\<lambda>row. JList (map JNum row)) features)),
                                  (''output'', JObj payload),
                                  (''latency_ms'', JNum latency),
                                  (''status'', JStr ''success'')])) st1)
         | Inl x \<Rightarrow>
             (RaiseHTTP 500 ''Prediction failed'',
              logger (Exception (JObj [(''event'', JStr ''prediction_error''),
                                       (''trace_id'', JStr trace_id),
                                       (''error'', JStr (exn_text x))])) st1))"

section \<open>Request validation and routing\<close>

text \<open>
  Modelled from the spec: the check of the request body against the declared schema is done
  by the web framework, not by code of the repository. The spec's words are followed: all
  four fields must be present and parseable as floating-point numbers, and a malformed
  body is answered with a 422 before the handler runs. How one JSON value is read as a
  float is the parameter \<open>as_float\<close>.
\<close>

definition field_names :: "string list" where
  "field_names = [''sepal_length'', ''sepal_width'', ''petal_length'', ''petal_width'']"

definition read_field ::
  "(jval \<Rightarrow> pyfloat option) \<Rightarrow> (string \<times> jval) list \<Rightarrow> string \<Rightarrow> string + pyfloat" where
  "read_field as_float b name =
     (case map_of b name of
        None \<Rightarrow> Inl ''missing''
      | Some v \<Rightarrow> (case as_float v of None \<Rightarrow> Inl ''float_parsing'' | Some f \<Rightarrow> Inr f))"

definition field_errors ::
  "(jval \<Rightarrow> pyfloat option) \<Rightarrow> (string \<times> jval) list \<Rightarrow> (string \<times> string) list" where
  "field_errors as_float b =
     concat (map (\<lambda>name. case read_field as_float b name of
                            Inl msg \<Rightarrow> [(name, msg)]
                          | Inr _ \<Rightarrow> []) field_names)"

definition validate ::
  "(jval \<Rightarrow> pyfloat option) \<Rightarrow> (string \<times> jval) list \<Rightarrow> (string \<times> string) list + IrisInput" where
  "validate as_float b =
     (case (read_field as_float b ''sepal_length'', read_field as_float b ''sepal_width'',
            read_field as_float b ''petal_length'', read_field as_float b ''petal_width'') of
        (Inr sl, Inr sw, Inr pl, Inr pw) \<Rightarrow>
          Inr \<lparr>sepal_length = sl, sepal_width = sw, petal_length = pl, petal_width = pw\<rparr>
      | _ \<Rightarrow> Inl (field_errors as_float b))"

definition validation_error :: "(string \<times> string) list \<Rightarrow> outcome" where
  "validation_error errs =
     ReturnJSON 422
       [(''detail'', JList (map (\<lambda>(name, msg). JObj [(''loc'', JStr name), (''type'', JStr msg)])
                               errs))]"

text \<open>The simplest reader of a float: a JSON number is taken as it is, nothing else is.\<close>

fun json_number :: "jval \<Rightarrow> pyfloat option" where
  "json_number (JNum f) = Some f"
| "json_number _ = None"

datatype request = GetRoot | GetLive | GetReady | PostPredict "(string \<times> jval) list"

definition not_found :: outcome where
  "not_found = ReturnJSON 404 [(''detail'', JStr ''Not Found'')]"

definition app_route ::
  "(jval \<Rightarrow> pyfloat option) \<Rightarrow> app_state \<Rightarrow> request \<Rightarrow> response \<times> app_state" where
  "app_route as_float st req =
     (case req of
        GetRoot \<Rightarrow> (render (root st), st)
      | PostPredict b \<Rightarrow>
          (case validate as_float b of
             Inl errs \<Rightarrow> (render (validation_error errs), st)
           | Inr inp \<Rightarrow> (let (out, st1) = app_predict st inp in (render out, st1)))
      | _ \<Rightarrow> (render not_found, st))"

text \<open>
  A request to deploy.py comes with the trace id of its span and the latency its handler will
  read from the clock.
\<close>

definition deploy_route ::
  "(jval \<Rightarrow> pyfloat option) \<Rightarrow> deploy_state \<Rightarrow> string \<Rightarrow> pyfloat \<Rightarrow> request
     \<Rightarrow> response \<times> deploy_state" where
  "deploy_route as_float st trace_id latency req =
     (case req of
        GetLive \<Rightarrow> (render (live_check st), st)
      | GetReady \<Rightarrow> (render (ready_check st), st)
      | PostPredict b \<Rightarrow>
          (case validate as_float b of
             Inl errs \<Rightarrow> (render (validation_error errs), st)
           | Inr inp \<Rightarrow>
               (let (out, st1) = deploy_predict st trace_id latency inp in (render out, st1)))
      | GetRoot \<Rightarrow> (render not_found, st))"

text \<open>
  What can happen to the process of deploy.py: the startup hook runs, a request is served,
  or the handler for \<open>Exception\<close> is run on an exception that escaped.
\<close>

datatype deploy_event =
    Startup "string \<Rightarrow> py_exn + model" env
  | Serve string pyfloat request
  | Escaped string string py_exn

definition deploy_step ::
  "(jval \<Rightarrow> pyfloat option) \<Rightarrow> deploy_state \<Rightarrow> deploy_event \<Rightarrow> deploy_state" where
  "deploy_step as_float st ev =
     (case ev of
        Startup unpickle e \<Rightarrow> startup_event unpickle e st
      | Serve trace_id latency req \<Rightarrow> snd (deploy_route as_float st trace_id latency req)
      | Escaped trace_id url exc \<Rightarrow> snd (exception_handler trace_id url exc st))"

fun deploy_run ::
  "(jval \<Rightarrow> pyfloat option) \<Rightarrow> deploy_state \<Rightarrow> deploy_event list \<Rightarrow> deploy_state" where
  "deploy_run as_float st [] = st"
| "deploy_run as_float st (ev # evs) = deploy_run as_float (deploy_step as_float st ev) evs"

section \<open>Reading a response\<close>

text \<open>The value of one field of the dict a handler returned; \<open>None\<close> when it returned no dict.\<close>

fun outcome_field :: "string \<Rightarrow> outcome \<Rightarrow> jval option" where
  "outcome_field k (Return d) = map_of d k"
| "outcome_field k _ = None"

text \<open>
  The table as the specification words it: 0, 1 and 2 go to the three species names, and
  any other index goes to the fallback of the variant.
\<close>

definition spec_species_table :: "int \<Rightarrow> string \<Rightarrow> string" where
  "spec_species_table i fallback =
     (if i = 0 then ''setosa'' else if i = 1 then ''versicolor''
      else if i = 2 then ''virginica'' else fallback)"

section \<open>Sample values\<close>

text \<open>The input of the specification's scenario: 2.0, 0.5, 1.0, 0.2.\<close>

definition sample_input :: IrisInput where
  "sample_input =
     \<lparr>sepal_length = Finite 2, sepal_width = Finite (1 / 2),
      petal_length = Finite 1, petal_width = Finite (1 / 5)\<rparr>"

text \<open>A model that answers every call with one raw label, and one that always raises.\<close>

definition const_model :: "raw_label \<Rightarrow> model" where
  "const_model y = (\<lambda>X. Inr [y])"

definition raising_model :: model where
  "raising_model = (\<lambda>X. Inl (PyExn ''ValueError'' ''boom''))"




definition body_missing_field :: "(string \<times> jval) list" where
  "body_missing_field =
     [(''sepal_length'', JNum (Finite 2)), (''sepal_width'', JStr ''wide''),
      (''petal_length'', JNum (Finite 1))]"

definition body_not_finite :: "(string \<times> jval) list" where
  "body_not_finite =
     [(''sepal_length'', JNum NaN), (''sepal_width'', JNum PosInf),
      (''petal_length'', JNum (Finite 1)), (''petal_width'', JNum (Finite (1 / 5)))]"

definition body_ok :: "(string \<times> jval) list" where
  "body_ok =
     [(''sepal_length'', JNum (Finite 2)), (''sepal_width'', JNum (Finite (1 / 2))),
      (''petal_length'', JNum (Finite 1)), (''petal_width'', JNum (Finite (1 / 5)))]"

section \<open>Evaluation lemmas\<close>

lemma dict_get_label_map: "dict_get label_map i d = spec_species_table i d"
  by (simp add: dict_get_def label_map_def spec_species_table_def)

lemma dict_get_SPECIES_MAP: "dict_get SPECIES_MAP i d = spec_species_table i d"
  by (simp add: dict_get_def SPECIES_MAP_def spec_species_table_def)

lemma str_int_7: "str_int 7 = ''7''"
  by (simp add: str_int_def str_nat.simps digit_char_def)

section \<open>The model is not loaded\<close>

text \<open>
  C1. A \<open>/predict\<close> request that arrives while the model is not loaded is to be refused
  with a 503. In app.py it is: the handler raises \<open>HTTPException(503)\<close>. In deploy.py the
  guard raises \<open>RuntimeError\<close> inside the \<open>try\<close> block, the \<open>except Exception\<close> clause of the
  same handler catches it, and the caller gets a 500 with the detail "Prediction failed".
\<close>

theorem predict_not_loaded:
  "render (fst (app_predict (sa\<lparr>app_model := None\<rparr>) inp))
     = \<lparr>status_code = 503,
        body = JObj [(''detail'', JStr ''Model not loaded. Try again later.'')]\<rparr>
   \<and> render (fst (deploy_predict (sd\<lparr>dep_model := None\<rparr>) trace_id latency inp))
     = \<lparr>status_code = 500, body = JObj [(''detail'', JStr ''Prediction failed'')]\<rparr>"
  by (simp add: app_predict_def deploy_predict_def deploy_try_def)

section \<open>Liveness\<close>

lemma is_alive_logger [simp]: "is_alive (logger l st) = is_alive st"
  by (simp add: logger_def)

lemma is_alive_startup_event: "is_alive (startup_event unpickle e st) = is_alive st"
  by (simp add: startup_event_def Let_def split: sum.split)

lemma is_alive_deploy_predict: "is_alive (snd (deploy_predict st t l inp)) = is_alive st"
  by (simp add: deploy_predict_def Let_def split: sum.split option.split)

lemma is_alive_deploy_route: "is_alive (snd (deploy_route af st t l req)) = is_alive st"
  by (simp add: deploy_route_def is_alive_deploy_predict split_def Let_def
      split: request.split sum.split)

lemma is_alive_deploy_step: "is_alive (deploy_step af st ev) = is_alive st"
  by (simp add: deploy_step_def is_alive_startup_event is_alive_deploy_route
      exception_handler_def split: deploy_event.split)

lemma is_alive_deploy_run: "is_alive (deploy_run af st evs) = is_alive st"
  by (induction evs arbitrary: st) (simp_all add: is_alive_deploy_step)

text \<open>
  C6. Whatever sequence of startup runs, requests and escaped exceptions the process of
  deploy.py has gone through since it was started, and whether or not a model load
  succeeded, \<open>is_alive\<close> is true and \<open>GET /live_check\<close> answers 200 with
  \<open>{"status": "alive"}\<close>: no step writes the flag.
\<close>

theorem liveness_invariant:
  "is_alive (deploy_run af deploy_init evs)
   \<and> render (live_check (deploy_run af deploy_init evs))
       = \<lparr>status_code = 200, body = JObj [(''status'', JStr ''alive'')]\<rparr>"
  by (simp add: is_alive_deploy_run live_check_def deploy_init_def)

section \<open>Failures inside the handlers\<close>

lemma app_try_model_raises: "m X = Inl x \<Longrightarrow> app_try m X = Inl x"
  by (simp add: app_try_def)

lemma deploy_try_model_raises:
  "m (feature_rows inp) = Inl x \<Longrightarrow> deploy_try (Some m) t l inp = Inl x"
  by (simp add: deploy_try_def)

text \<open>
  What each variant answers when the \<open>try\<close> block of \<open>predict\<close> raises (the model call, the
  indexing or the integer coercion): deploy.py a fixed detail, app.py the detail
  \<open>"Prediction failed: " + str(e)\<close>.
\<close>

lemma deploy_predict_failure_fixed:
  "deploy_try (dep_model sd) trace_id latency inp = Inl y \<Longrightarrow>
   render (fst (deploy_predict sd trace_id latency inp))
     = \<lparr>status_code = 500, body = JObj [(''detail'', JStr ''Prediction failed'')]\<rparr>"
  by (simp add: deploy_predict_def Let_def)

lemma app_predict_failure_detail:
  "app_model sa = Some m \<Longrightarrow> app_try m (feature_rows inp) = Inl x \<Longrightarrow>
   render (fst (app_predict sa inp))
     = \<lparr>status_code = 500,
        body = JObj [(''detail'', JStr (''Prediction failed: '' @ exn_text x))]\<rparr>"
  by (simp add: app_predict_def Let_def)

text \<open>
  C2. A request whose handling raises an unexpected exception is to get a generic 500
  whose body never contains the exception's text, in both variants. deploy.py does so: for
  a model that raises \<open>ValueError("boom")\<close> it answers 500 with the fixed detail
  "Prediction failed". app.py does not: for the same model and input it answers 500 with
  the detail "Prediction failed: boom", which contains the exception's text.
\<close>

theorem app_predict_leaks_exception_text:
  "raising_model (feature_rows sample_input) = Inl (PyExn ''ValueError'' ''boom'')
   \<and> render (fst (app_predict (app_init\<lparr>app_model := Some raising_model\<rparr>) sample_input))
     = \<lparr>status_code = 500, body = JObj [(''detail'', JStr ''Prediction failed: boom'')]\<rparr>
   \<and> sublist ''boom'' ''Prediction failed: boom''
   \<and> render (fst (deploy_predict (deploy_init\<lparr>dep_model := Some raising_model\<rparr>)
                  ''00ab'' (Finite 3) sample_input))
     = \<lparr>status_code = 500, body = JObj [(''detail'', JStr ''Prediction failed'')]\<rparr>"
proof -
  have "''Prediction failed: boom'' = ''Prediction failed: '' @ ''boom'' @ []"
    by simp
  then have "sublist ''boom'' ''Prediction failed: boom''"
    unfolding sublist_def by blast
  then show ?thesis
    by (simp add: app_predict_def app_init_def app_try_def deploy_predict_def deploy_try_def
        deploy_init_def raising_model_def Let_def)
qed

section \<open>Label normalisation\<close>

text \<open>
  C3. When the model call succeeds and \<open>y\<close> is the first label it returned: if \<open>y\<close> is a
  string, \<open>species\<close> is that string in both variants; otherwise \<open>y\<close> is coerced with \<open>int\<close>,
  and the index goes through the table 0 to setosa, 1 to versicolor, 2 to virginica, with
  the fallback "unknown" in app.py and \<open>str(y)\<close> in deploy.py. (When \<open>int\<close> raises there is no
  \<open>species\<close>: both variants answer 500.)
\<close>

theorem species_normalisation:
  assumes "app_model sa = Some m" and "dep_model sd = Some m"
    and "m (feature_rows inp) = Inr (y # ys)"
  shows "case y of
           RStr s \<Rightarrow>
             outcome_field ''species'' (fst (app_predict sa inp)) = Some (JStr s)
             \<and> outcome_field ''species'' (fst (deploy_predict sd trace_id latency inp))
                 = Some (JStr s)
         | _ \<Rightarrow>
             (case py_int y of
                Inr i \<Rightarrow>
                  outcome_field ''species'' (fst (app_predict sa inp))
                    = Some (JStr (spec_species_table i ''unknown''))
                  \<and> outcome_field ''species'' (fst (deploy_predict sd trace_id latency inp))
                      = Some (JStr (spec_species_table i (py_str y)))
              | Inl x \<Rightarrow>
                  fst (app_predict sa inp)
                    = RaiseHTTP 500 (''Prediction failed: '' @ exn_text x)
                  \<and> fst (deploy_predict sd trace_id latency inp)
                      = RaiseHTTP 500 ''Prediction failed'')"
  using assms
  by (cases y)
     (simp_all add: app_predict_def deploy_predict_def app_try_def deploy_try_def index0_def
        app_species_def deploy_species_def dict_get_label_map dict_get_SPECIES_MAP Let_def
        split: sum.split)

theorem species_normalisation_witness:
  "outcome_field ''species''
     (fst (app_predict (app_init\<lparr>app_model := Some (const_model (RInt 7))\<rparr>) sample_input))
     = Some (JStr ''unknown'')
   \<and> outcome_field ''species''
       (fst (deploy_predict (deploy_init\<lparr>dep_model := Some (const_model (RInt 7))\<rparr>)
              ''00ab'' (Finite 3) sample_input))
     = Some (JStr ''7'')"
  using species_normalisation
    [of "app_init\<lparr>app_model := Some (const_model (RInt 7))\<rparr>" "const_model (RInt 7)"
        "deploy_init\<lparr>dep_model := Some (const_model (RInt 7))\<rparr>" sample_input "RInt 7" "[]"
        "''00ab''" "Finite 3"]
  by (simp add: spec_species_table_def str_int_7 const_model_def)

lemma app_predict_scenario:
  "fst (app_predict (app_init\<lparr>app_model := Some (const_model (RInt 0))\<rparr>) sample_input)
   = Return [(''status'', JStr ''success''), (''predicted_label'', JRaw (RInt 0)),
             (''species'', JStr ''setosa'')]"
  by (simp add: app_predict_def app_init_def app_try_def index0_def app_species_def
      dict_get_label_map spec_species_table_def const_model_def)

section \<open>Startup\<close>

text \<open>The ways the loader of app.py fails.\<close>

lemma load_model_mkdir_fails:
  "local_model e = None \<Longrightarrow> mkdir_error e = Some x \<Longrightarrow>
   fst (load_model unpickle e) = Inl x"
  by (simp add: load_model_def download_model_from_gcs_def print_def)

lemma load_model_missing_key:
  "local_model e = None \<Longrightarrow> mkdir_error e = None \<Longrightarrow> \<not> key_exists e \<Longrightarrow>
   \<exists>txt. fst (load_model unpickle e) = Inl (PyExn ''FileNotFoundError'' txt)"
  by (simp add: load_model_def download_model_from_gcs_def print_def)


lemma load_model_unpickle_fails_cached:
  "local_model e = Some bytes \<Longrightarrow> unpickle bytes = Inl x \<Longrightarrow>
   fst (load_model unpickle e) = Inl x"
  by (simp add: load_model_def joblib_load_path_def)

lemma load_model_unpickle_fails_fetched:
  "local_model e = None \<Longrightarrow> mkdir_error e = None \<Longrightarrow> key_exists e \<Longrightarrow>
   gcs_blob e = Inr bytes \<Longrightarrow>
   unpickle bytes = Inl x \<Longrightarrow> fst (load_model unpickle e) = Inl x"
  by (simp add: load_model_def download_model_from_gcs_def print_def joblib_load_path_def)



section \<open>Readiness\<close>

lemma is_ready_deploy_predict: "is_ready (snd (deploy_predict st t l inp)) = is_ready st"
  by (simp add: deploy_predict_def logger_def Let_def split: sum.split option.split)

lemma is_ready_deploy_route: "is_ready (snd (deploy_route af st t l req)) = is_ready st"
  by (simp add: deploy_route_def is_ready_deploy_predict split_def Let_def
      split: request.split sum.split)

lemma is_ready_serve_all:
  "is_ready (deploy_run af st (map (\<lambda>(t, l, req). Serve t l req) reqs)) = is_ready st"
  by (induction reqs arbitrary: st)
     (simp_all add: deploy_step_def is_ready_deploy_route split_def)

text \<open>
  C5. After the startup hook of deploy.py has run on a fresh process, and after any
  number of requests served since, \<open>GET /ready_check\<close> answers 200 with
  \<open>{"status": "ready"}\<close> exactly when the load succeeded, and 503 when it failed;
  \<open>GET /live_check\<close> answers alive in both cases.
\<close>

theorem readiness_iff_load_ok:
  "render (ready_check (deploy_run af (startup_event unpickle e deploy_init)
                          (map (\<lambda>(t, l, req). Serve t l req) reqs)))
     = (case joblib_load_path unpickle e of
          Inr mdl \<Rightarrow> \<lparr>status_code = 200, body = JObj [(''status'', JStr ''ready'')]\<rparr>
        | Inl x \<Rightarrow> \<lparr>status_code = 503, body = JNull\<rparr>)
   \<and> render (live_check (deploy_run af (startup_event unpickle e deploy_init)
                            (map (\<lambda>(t, l, req). Serve t l req) reqs)))
     = \<lparr>status_code = 200, body = JObj [(''status'', JStr ''alive'')]\<rparr>"
  by (simp add: is_ready_serve_all is_alive_deploy_run startup_event_def ready_check_def
      live_check_def deploy_init_def logger_def Let_def split: sum.split)

section \<open>Malformed request bodies\<close>

lemma validate_malformed:
  assumes "name \<in> set field_names"
    and "map_of b name = None \<or> (\<exists>v. map_of b name = Some v \<and> as_float v = None)"
  shows "\<exists>errs. validate as_float b = Inl errs"
proof -
  from assms(2) have "\<exists>msg. read_field as_float b name = Inl msg"
    by (auto simp: read_field_def)
  with assms(1) show ?thesis
    by (auto simp: validate_def field_names_def split: sum.split)
qed

text \<open>
  C7. When one of the four fields is missing from the body of a \<open>POST /predict\<close>, or its
  value cannot be read as a float, both variants answer with status 422 and the history of
  \<open>model.predict\<close> calls is what it was before the request: the model is not called.
\<close>

theorem malformed_body_rejected:
  assumes "name \<in> set field_names"
    and "map_of b name = None \<or> (\<exists>v. map_of b name = Some v \<and> as_float v = None)"
  shows "status_code (fst (app_route as_float sa (PostPredict b))) = 422
         \<and> app_calls (snd (app_route as_float sa (PostPredict b))) = app_calls sa
         \<and> status_code (fst (deploy_route as_float sd trace_id latency (PostPredict b))) = 422
         \<and> dep_calls (snd (deploy_route as_float sd trace_id latency (PostPredict b)))
             = dep_calls sd"
proof -
  from validate_malformed [OF assms] obtain errs where "validate as_float b = Inl errs" ..
  then show ?thesis
    by (simp add: app_route_def deploy_route_def validation_error_def)
qed

theorem malformed_body_rejected_witness:
  "status_code (fst (app_route json_number (app_init\<lparr>app_model := Some (const_model (RInt 0))\<rparr>)
                      (PostPredict body_missing_field))) = 422
   \<and> app_calls (snd (app_route json_number (app_init\<lparr>app_model := Some (const_model (RInt 0))\<rparr>)
                      (PostPredict body_missing_field))) = []
   \<and> status_code (fst (deploy_route json_number
                          (deploy_init\<lparr>dep_model := Some (const_model (RInt 0))\<rparr>)
                          ''00ab'' (Finite 3) (PostPredict body_missing_field))) = 422
   \<and> dep_calls (snd (deploy_route json_number
                        (deploy_init\<lparr>dep_model := Some (const_model (RInt 0))\<rparr>)
                        ''00ab'' (Finite 3) (PostPredict body_missing_field))) = []"
  using malformed_body_rejected
    [of "''petal_width''" body_missing_field json_number
        "app_init\<lparr>app_model := Some (const_model (RInt 0))\<rparr>"
        "deploy_init\<lparr>dep_model := Some (const_model (RInt 0))\<rparr>" "''00ab''" "Finite 3"]
  by (simp add: field_names_def app_init_def deploy_init_def body_missing_field_def)

lemma non_numeric_field_rejected:
  "read_field json_number body_missing_field ''sepal_width'' = Inl ''float_parsing''
   \<and> read_field json_number body_missing_field ''petal_width'' = Inl ''missing''"
  by (simp add: read_field_def body_missing_field_def)

section \<open>The feature vector\<close>

text \<open>
  C8, as the claim states it, fails: a body whose numbers are NaN and an infinity is a
  value of the declared schema (four floats), no code of the service checks finiteness, and
  the model is called with those values and the request succeeds.
\<close>

theorem non_finite_reaches_model:
  "app_calls (snd (app_route json_number (app_init\<lparr>app_model := Some (const_model (RInt 0))\<rparr>)
                     (PostPredict body_not_finite)))
     = [[[NaN, PosInf, Finite 1, Finite (1 / 5)]]]
   \<and> status_code (fst (app_route json_number
                          (app_init\<lparr>app_model := Some (const_model (RInt 0))\<rparr>)
                          (PostPredict body_not_finite))) = 200
   \<and> \<not> isfinite NaN \<and> \<not> isfinite PosInf"
  by (simp add: app_route_def validate_def read_field_def app_predict_def app_init_def
      feature_rows_def Let_def split_def app_try_def index0_def app_species_def
      dict_get_label_map body_not_finite_def const_model_def)

text \<open>
  C8, amended. For a body that passes validation and a loaded model, each variant calls the
  model once, with one row of exactly four values: what was read from \<open>sepal_length\<close>,
  \<open>sepal_width\<close>, \<open>petal_length\<close> and \<open>petal_width\<close>, in this order. (That they are finite is
  not checked.)
\<close>

theorem feature_vector_shape:
  assumes "validate as_float b = Inr inp" and "app_model sa = Some m"
    and "dep_model sd = Some m'"
  shows "app_calls (snd (app_route as_float sa (PostPredict b)))
           = app_calls sa
               @ [[[sepal_length inp, sepal_width inp, petal_length inp, petal_width inp]]]
         \<and> dep_calls (snd (deploy_route as_float sd trace_id latency (PostPredict b)))
           = dep_calls sd
               @ [[[sepal_length inp, sepal_width inp, petal_length inp, petal_width inp]]]
         \<and> map (\<lambda>name. map_option as_float (map_of b name)) field_names
           = map (\<lambda>f. Some (Some f))
               [sepal_length inp, sepal_width inp, petal_length inp, petal_width inp]"
  using assms
  by (auto simp: app_route_def deploy_route_def app_predict_def deploy_predict_def
      feature_rows_def Let_def split_def logger_def validate_def read_field_def field_names_def
      split: sum.splits option.splits)

theorem feature_vector_shape_witness:
  "app_calls (snd (app_route json_number (app_init\<lparr>app_model := Some (const_model (RInt 0))\<rparr>)
                     (PostPredict body_ok)))
     = [[[Finite 2, Finite (1 / 2), Finite 1, Finite (1 / 5)]]]
   \<and> dep_calls (snd (deploy_route json_number
                        (deploy_init\<lparr>dep_model := Some (const_model (RInt 0))\<rparr>)
                        ''00ab'' (Finite 3) (PostPredict body_ok)))
     = [[[Finite 2, Finite (1 / 2), Finite 1, Finite (1 / 5)]]]"
proof -
  have v: "validate json_number body_ok = Inr sample_input"
    by (simp add: validate_def read_field_def body_ok_def sample_input_def)
  show ?thesis
    using feature_vector_shape
      [OF v, of "app_init\<lparr>app_model := Some (const_model (RInt 0))\<rparr>" "const_model (RInt 0)"
          "deploy_init\<lparr>dep_model := Some (const_model (RInt 0))\<rparr>" "const_model (RInt 0)"
          "''00ab''" "Finite 3"]
    by (simp add: app_init_def deploy_init_def sample_input_def)
qed

section \<open>Repeating a prediction\<close>

lemma app_model_app_predict: "app_model (snd (app_predict st inp)) = app_model st"
  by (simp add: app_predict_def Let_def split: option.split sum.split)

lemma app_predict_outcome_cong:
  "app_model s1 = app_model s2 \<Longrightarrow> fst (app_predict s1 inp) = fst (app_predict s2 inp)"
  by (simp add: app_predict_def Let_def split: option.split sum.split)

lemma dep_model_deploy_predict: "dep_model (snd (deploy_predict st t l inp)) = dep_model st"
  by (simp add: deploy_predict_def logger_def Let_def split: option.split sum.split)

lemma deploy_try_species:
  "map_sum id (\<lambda>d. map_of d ''species'') (deploy_try mo t1 l1 inp)
   = map_sum id (\<lambda>d. map_of d ''species'') (deploy_try mo t2 l2 inp)"
  by (simp add: deploy_try_def split: option.split sum.split)

lemma deploy_predict_species:
  "outcome_field ''species'' (fst (deploy_predict st t l inp))
   = (case deploy_try (dep_model st) t l inp of
        Inl x \<Rightarrow> None
      | Inr d \<Rightarrow> map_of d ''species'')"
  by (simp add: deploy_predict_def Let_def split: sum.split)

lemma deploy_predict_species_cong:
  assumes "dep_model s1 = dep_model s2"
  shows "outcome_field ''species'' (fst (deploy_predict s1 t1 l1 inp))
       = outcome_field ''species'' (fst (deploy_predict s2 t2 l2 inp))"
  using deploy_try_species [of "dep_model s2" t1 l1 inp t2 l2] assms
  by (auto simp add: deploy_predict_species split: sum.splits)

lemma app_predict_species:
  assumes "app_model sa = Some m" and "m (feature_rows inp) = Inr (y # ys)"
    and "app_species y = Inr s"
  shows "outcome_field ''species'' (fst (app_predict sa inp)) = Some (JStr s)"
  using assms by (simp add: app_predict_def app_try_def index0_def Let_def)

lemma deploy_predict_species_ok:
  assumes "dep_model sd = Some m" and "m (feature_rows inp) = Inr (y # ys)"
    and "deploy_species y = Inr s"
  shows "outcome_field ''species'' (fst (deploy_predict sd t l inp)) = Some (JStr s)"
  using assms by (simp add: deploy_predict_def deploy_try_def index0_def Let_def)

text \<open>
  C9. Let a model be loaded, and let it return, for the input, a first label \<open>y\<close> that
  normalises to a species (\<open>s\<close> in app.py, \<open>s'\<close> in deploy.py). Then \<open>/predict\<close> answers with
  that species, and a second \<open>/predict\<close> with the same input, served in the state the first
  one left, answers with the same species: in app.py the whole response is the same; in
  deploy.py the trace id and the latency of the two requests may differ. Neither call
  changes the loaded model or the flags \<open>is_ready\<close> and \<open>is_alive\<close>.
\<close>

theorem predict_idempotent:
  assumes "app_model sa = Some m" and "dep_model sd = Some m"
    and "m (feature_rows inp) = Inr (y # ys)"
    and "app_species y = Inr s" and "deploy_species y = Inr s'"
  shows "outcome_field ''species'' (fst (app_predict sa inp)) = Some (JStr s)
   \<and> outcome_field ''species'' (fst (app_predict (snd (app_predict sa inp)) inp))
       = Some (JStr s)
   \<and> fst (app_predict (snd (app_predict sa inp)) inp) = fst (app_predict sa inp)
   \<and> app_model (snd (app_predict sa inp)) = app_model sa
   \<and> app_model (snd (app_predict (snd (app_predict sa inp)) inp)) = app_model sa
   \<and> outcome_field ''species'' (fst (deploy_predict sd t1 l1 inp)) = Some (JStr s')
   \<and> outcome_field ''species''
       (fst (deploy_predict (snd (deploy_predict sd t1 l1 inp)) t2 l2 inp))
       = Some (JStr s')
   \<and> dep_model (snd (deploy_predict sd t1 l1 inp)) = dep_model sd
   \<and> is_ready (snd (deploy_predict sd t1 l1 inp)) = is_ready sd
   \<and> is_alive (snd (deploy_predict sd t1 l1 inp)) = is_alive sd
   \<and> dep_model (snd (deploy_predict (snd (deploy_predict sd t1 l1 inp)) t2 l2 inp))
       = dep_model sd
   \<and> is_ready (snd (deploy_predict (snd (deploy_predict sd t1 l1 inp)) t2 l2 inp))
       = is_ready sd
   \<and> is_alive (snd (deploy_predict (snd (deploy_predict sd t1 l1 inp)) t2 l2 inp))
       = is_alive sd"
proof -
  have a1: "outcome_field ''species'' (fst (app_predict sa inp)) = Some (JStr s)"
    using assms(1,3,4) by (rule app_predict_species)
  have a: "fst (app_predict (snd (app_predict sa inp)) inp) = fst (app_predict sa inp)"
    by (rule app_predict_outcome_cong) (rule app_model_app_predict)
  have d1: "outcome_field ''species'' (fst (deploy_predict sd t1 l1 inp)) = Some (JStr s')"
    using assms(2,3,5) by (rule deploy_predict_species_ok)
  have "dep_model (snd (deploy_predict sd t1 l1 inp)) = Some m"
    using assms(2) by (simp add: dep_model_deploy_predict)
  then have d2: "outcome_field ''species''
             (fst (deploy_predict (snd (deploy_predict sd t1 l1 inp)) t2 l2 inp))
           = Some (JStr s')"
    using assms(3,5) by (rule deploy_predict_species_ok)
  show ?thesis
    by (simp add: a a1 d1 d2 app_model_app_predict dep_model_deploy_predict
        is_ready_deploy_predict is_alive_deploy_predict)
qed

theorem predict_idempotent_witness:
  "outcome_field ''species''
     (fst (app_predict (app_init\<lparr>app_model := Some (const_model (RInt 1))\<rparr>) sample_input))
     = Some (JStr ''versicolor'')
   \<and> outcome_field ''species''
       (fst (app_predict
              (snd (app_predict (app_init\<lparr>app_model := Some (const_model (RInt 1))\<rparr>)
                     sample_input))
              sample_input))
     = Some (JStr ''versicolor'')
   \<and> outcome_field ''species''
       (fst (deploy_predict (deploy_init\<lparr>dep_model := Some (const_model (RInt 1))\<rparr>)
              ''00ab'' (Finite 3) sample_input))
     = Some (JStr ''versicolor'')
   \<and> outcome_field ''species''
       (fst (deploy_predict
              (snd (deploy_predict (deploy_init\<lparr>dep_model := Some (const_model (RInt 1))\<rparr>)
                     ''00ab'' (Finite 3) sample_input))
              ''00cd'' (Finite 5) sample_input))
     = Some (JStr ''versicolor'')
   \<and> is_ready
       (snd (deploy_predict
              (snd (deploy_predict (deploy_init\<lparr>dep_model := Some (const_model (RInt 1))\<rparr>)
                     ''00ab'' (Finite 3) sample_input))
              ''00cd'' (Finite 5) sample_input))
     = False"
proof -
  have y: "const_model (RInt 1) (feature_rows sample_input) = Inr (RInt 1 # [])"
    by (simp add: const_model_def)
  have sa: "app_species (RInt 1) = Inr ''versicolor''"
    by (simp add: app_species_def dict_get_label_map spec_species_table_def)
  have sd: "deploy_species (RInt 1) = Inr ''versicolor''"
    by (simp add: deploy_species_def dict_get_SPECIES_MAP spec_species_table_def)
  have ma: "app_model (app_init\<lparr>app_model := Some (const_model (RInt 1))\<rparr>)
              = Some (const_model (RInt 1))"
    by simp
  have md: "dep_model (deploy_init\<lparr>dep_model := Some (const_model (RInt 1))\<rparr>)
              = Some (const_model (RInt 1))"
    by simp
  show ?thesis
    using predict_idempotent [OF ma md y sa sd, of "''00ab''" "Finite 3" "''00cd''" "Finite 5"]
    by (simp add: deploy_init_def)
qed

section \<open>The response body of deploy.py\<close>

text \<open>
  C10, as the claim states it, fails in its last part: when the model returns the string
  "setosa", that raw output is in the body unchanged, and when it returns the index 7, the
  body holds its string form "7".
\<close>

theorem raw_output_in_body:
  "fst (deploy_predict (deploy_init\<lparr>dep_model := Some (const_model (RStr ''setosa''))\<rparr>)
          ''00ab'' (Finite 3) sample_input)
     = Return [(''status'', JStr ''success''), (''predicted_label'', JStr ''setosa''),
               (''species'', JStr ''setosa''), (''latency_ms'', JNum (Finite 3)),
               (''trace_id'', JStr ''00ab'')]
   \<and> fst (deploy_predict (deploy_init\<lparr>dep_model := Some (const_model (RInt 7))\<rparr>)
            ''00ab'' (Finite 3) sample_input)
     = Return [(''status'', JStr ''success''), (''predicted_label'', JStr ''7''),
               (''species'', JStr ''7''), (''latency_ms'', JNum (Finite 3)),
               (''trace_id'', JStr ''00ab'')]
   \<and> py_str (RInt 7) = ''7''"
  by (simp add: deploy_predict_def deploy_try_def index0_def deploy_species_def
      dict_get_SPECIES_MAP spec_species_table_def Let_def str_int_7 const_model_def)

text \<open>
  C10, amended. Whenever \<open>predict\<close> of deploy.py returns a payload, the model was loaded and
  returned a first label \<open>y\<close>, and the payload is exactly: status "success",
  \<open>predicted_label\<close> and \<open>species\<close> both the normalised label \<open>sp\<close>, the latency and the trace
  id. The raw output enters the body only through the normalisation: \<open>sp\<close> is \<open>y\<close> itself
  when \<open>y\<close> is a string, and otherwise the table entry of \<open>int(y)\<close>, with \<open>str(y)\<close> for an
  index outside the table.
\<close>

theorem predicted_label_is_species:
  assumes "fst (deploy_predict sd trace_id latency inp) = Return payload"
  shows "\<exists>m y ys sp.
           dep_model sd = Some m \<and> m (feature_rows inp) = Inr (y # ys)
           \<and> payload = [(''status'', JStr ''success''), (''predicted_label'', JStr sp),
                        (''species'', JStr sp), (''latency_ms'', JNum latency),
                        (''trace_id'', JStr trace_id)]
           \<and> (case y of
                 RStr s \<Rightarrow> sp = s
               | _ \<Rightarrow> (\<exists>i. py_int y = Inr i \<and> sp = spec_species_table i (py_str y)))"
  using assms
  by (auto simp add: deploy_predict_def deploy_try_def index0_def deploy_species_def
      dict_get_SPECIES_MAP Let_def split: sum.splits option.splits list.splits raw_label.splits
      if_splits)

theorem predicted_label_is_species_witness:
  "fst (deploy_predict (deploy_init\<lparr>dep_model := Some (const_model (RInt 2))\<rparr>)
          ''00ab'' (Finite 3) sample_input)
     = Return [(''status'', JStr ''success''), (''predicted_label'', JStr ''virginica''),
               (''species'', JStr ''virginica''), (''latency_ms'', JNum (Finite 3)),
               (''trace_id'', JStr ''00ab'')]
   \<and> (\<exists>m y ys sp.
         dep_model (deploy_init\<lparr>dep_model := Some (const_model (RInt 2))\<rparr>) = Some m
         \<and> m (feature_rows sample_input) = Inr (y # ys)
         \<and> [(''status'', JStr ''success''), (''predicted_label'', JStr ''virginica''),
             (''species'', JStr ''virginica''), (''latency_ms'', JNum (Finite 3)),
             (''trace_id'', JStr ''00ab'')]
           = [(''status'', JStr ''success''), (''predicted_label'', JStr sp),
              (''species'', JStr sp), (''latency_ms'', JNum (Finite 3)),
              (''trace_id'', JStr ''00ab'')]
         \<and> (case y of
               RStr s \<Rightarrow> sp = s
             | _ \<Rightarrow> (\<exists>i. py_int y = Inr i \<and> sp = spec_species_table i (py_str y))))"
proof -
  have r: "fst (deploy_predict (deploy_init\<lparr>dep_model := Some (const_model (RInt 2))\<rparr>)
                 ''00ab'' (Finite 3) sample_input)
           = Return [(''status'', JStr ''success''), (''predicted_label'', JStr ''virginica''),
                     (''species'', JStr ''virginica''), (''latency_ms'', JNum (Finite 3)),
                     (''trace_id'', JStr ''00ab'')]"
    by (simp add: deploy_predict_def deploy_try_def index0_def deploy_species_def
        dict_get_SPECIES_MAP spec_species_table_def Let_def const_model_def)
  from predicted_label_is_species [OF r] r show ?thesis
    by (rule conjI [rotated])
qed

end
